theory Spec2Isabelle
  imports Complex_Main
begin

section \<open>Conventions of the embedding\<close>

text \<open>
  The notebook computes on Python floats and on float tensors. The values that come from
  outside (the observations in \<^verbatim>\<open>X\<close>, \<^verbatim>\<open>Y\<close> and \<^verbatim>\<open>Y_next\<close>, and with
  them \<^verbatim>\<open>best_value\<close>) are of type \<open>pyfloat\<close>: a finite float, given by the
  real number it denotes, one of the two infinities, or NaN. They are compared as IEEE
  754 compares them. The observations of a run are floats of one precision, and
  \<^verbatim>\<open>best_value\<close> is a Python float, as the dataclass declares it and as
  \<^verbatim>\<open>update_state\<close> assigns it, or a float of that same precision, so that a
  comparison of two of these values rounds nothing. The one place where
  \<^verbatim>\<open>update_state\<close> adds and multiplies observed values is the threshold of its
  improvement test: there the result of the floating-point computation is a parameter of
  the model, so that nothing is assumed about its rounding.

  The widths of the trust region, the hyperparameters of the model and the draws of the
  libraries are finite and are real numbers; arithmetic on them is exact. A tensor of
  rank one is a list, a tensor of rank two a list of rows. An exception is a value: every
  function that can raise returns \<open>py_error + 'a\<close>, with \<open>Inl\<close> for the
  exception.

  \<open>AssertionError\<close> is raised by an \<^verbatim>\<open>assert\<close> statement of the notebook,
  \<open>UnboundLocalError\<close> by reading a local name that was never assigned,
  \<open>ValueError\<close> by the built-in \<^verbatim>\<open>max\<close> on an empty sequence,
  \<open>ZeroDivisionError\<close> by a float division by zero, and \<open>LibraryError\<close> stands for
  every exception raised inside numpy, torch or GPyTorch (empty reductions, indices out
  of range, shape mismatches, \<^verbatim>\<open>len\<close> of a tensor of rank zero, an empty range
  for \<^verbatim>\<open>randint\<close>, a failure of the Sobol engine or of the posterior sampling).
\<close>

datatype py_error =
  AssertionError | UnboundLocalError | ValueError | ZeroDivisionError | LibraryError

datatype pyfloat = Finite real | PosInf | NegInf | NaN

text \<open>\<^verbatim>\<open>a < b\<close> and \<^verbatim>\<open>a <= b\<close> on floats: false as soon as one side is NaN.\<close>

fun fl_less :: "pyfloat \<Rightarrow> pyfloat \<Rightarrow> bool" where
  "fl_less (Finite a) (Finite b) = (a < b)"
| "fl_less (Finite a) PosInf = True"
| "fl_less NegInf (Finite b) = True"
| "fl_less NegInf PosInf = True"
| "fl_less a b = False"

definition fl_le :: "pyfloat \<Rightarrow> pyfloat \<Rightarrow> bool" where
  "fl_le a b = (fl_less a b \<or> (a = b \<and> a \<noteq> NaN))"

text \<open>\<^verbatim>\<open>torch.isfinite\<close> on one element, and the real number a finite float denotes
  (read only where the float is known to be finite).\<close>

fun isfinite :: "pyfloat \<Rightarrow> bool" where
  "isfinite (Finite r) = True"
| "isfinite v = False"

fun the_real :: "pyfloat \<Rightarrow> real" where
  "the_real (Finite r) = r"
| "the_real v = 0"

section \<open>The trust-region state\<close>

text \<open>
  The dataclass \<^verbatim>\<open>TurboState\<close>. The fields \<^verbatim>\<open>dim\<close> and
  \<^verbatim>\<open>length\<close> carry the suffix \<open>_st\<close>, since both names are constants of the
  library already.
\<close>

record TurboState =
  dim_st :: int
  batch_size :: int
  length_st :: real
  length_min :: real
  length_max :: real
  failure_counter :: int
  failure_tolerance :: int
  success_counter :: int
  success_tolerance :: int
  best_value :: pyfloat
  restart_triggered :: bool

text \<open>
  \<^verbatim>\<open>__post_init__\<close>: the failure tolerance is
  \<^verbatim>\<open>ceil(max([4.0 / batch_size, float(dim) / batch_size]))\<close>.
\<close>

definition post_init :: "TurboState \<Rightarrow> py_error + TurboState" where
  "post_init s =
     (if batch_size s = 0 then Inl ZeroDivisionError
      else Inr (s\<lparr>failure_tolerance :=
        \<lceil>max (4 / real_of_int (batch_size s))
              (real_of_int (dim_st s) / real_of_int (batch_size s))\<rceil>\<rparr>))"

text \<open>
  \<^verbatim>\<open>TurboState(dim = d, best_value = b)\<close> with every other field at its default;
  \<^verbatim>\<open>TurboState(dim = d)\<close> is \<open>TurboState_new d NegInf\<close>, since the default of
  \<^verbatim>\<open>best_value\<close> is minus infinity. The field \<^verbatim>\<open>failure_tolerance\<close> starts
  as a placeholder that \<open>post_init\<close> overwrites.
\<close>

definition TurboState_new :: "int \<Rightarrow> pyfloat \<Rightarrow> py_error + TurboState" where
  "TurboState_new d b =
     post_init \<lparr>dim_st = d, batch_size = 1, length_st = 8 / 10, length_min = (1 / 2) ^ 7,
       length_max = 16 / 10, failure_counter = 0, failure_tolerance = 0,
       success_counter = 0, success_tolerance = 3, best_value = b,
       restart_triggered = False\<rparr>"

text \<open>
  The built-in \<^verbatim>\<open>max\<close> of a sequence: it raises on the empty sequence, and
  otherwise keeps the first item until a later one is greater. With two arguments,
  \<^verbatim>\<open>max(a, b)\<close> is \<open>b\<close> when \<^verbatim>\<open>b > a\<close> and \<open>a\<close> otherwise.
\<close>

definition max2_builtin :: "pyfloat \<Rightarrow> pyfloat \<Rightarrow> pyfloat" where
  "max2_builtin a b = (if fl_less a b then b else a)"

fun max_builtin :: "pyfloat list \<Rightarrow> py_error + pyfloat" where
  "max_builtin [] = Inl ValueError"
| "max_builtin (y # ys) = Inr (fold (\<lambda>x m. max2_builtin m x) ys y)"

text \<open>
  The threshold of the improvement test,
  \<^verbatim>\<open>state.best_value + 1e-3 * math.fabs(state.best_value)\<close>, is computed in floating
  point: the product and the sum are rounded, and the result is brought to the precision
  in which it is compared with \<^verbatim>\<open>max(Y_next)\<close>. For a finite \<^verbatim>\<open>best_value\<close>
  the model takes the result of this computation as the parameter \<open>thr\<close> of
  \<^verbatim>\<open>update_state\<close>, a function of the real number that \<^verbatim>\<open>best_value\<close>
  denotes, so that nothing is assumed about the rounding or the precision. Where
  \<^verbatim>\<open>best_value\<close> is not finite the arithmetic is fixed by IEEE 754:
  \<^verbatim>\<open>math.fabs\<close> of an infinity is infinity, so the threshold is infinity at
  infinity and NaN (minus infinity plus infinity) at minus infinity, the default of the
  dataclass; at NaN it is NaN.

  \<open>thr_exact\<close> is the computation without rounding. It is what the code computes
  wherever no operation rounds, as at \<^verbatim>\<open>best_value = 0.0\<close>.
\<close>

fun improvement_threshold :: "(real \<Rightarrow> pyfloat) \<Rightarrow> pyfloat \<Rightarrow> pyfloat" where
  "improvement_threshold thr (Finite b) = thr b"
| "improvement_threshold thr PosInf = PosInf"
| "improvement_threshold thr NegInf = NaN"
| "improvement_threshold thr NaN = NaN"

definition thr_exact :: "real \<Rightarrow> pyfloat" where
  "thr_exact b = Finite (b + 1 / 1000 * \<bar>b\<bar>)"

text \<open>
  \<^verbatim>\<open>update_state\<close>, in the four steps of its body. \<open>count_outcome\<close> is the
  first conditional (success or failure of the new observations), \<open>resize_region\<close> the
  second (expand after enough successes in a row, else shrink after enough failures in a
  row), \<open>record_best\<close> the assignment to \<^verbatim>\<open>best_value\<close>, \<open>check_restart\<close>
  the last conditional. The argument \<open>ymax\<close> is the value of \<^verbatim>\<open>max(Y_next)\<close>.
  The expansion and the halving act on the width, a finite float: both are exact.
\<close>

definition count_outcome ::
  "(real \<Rightarrow> pyfloat) \<Rightarrow> TurboState \<Rightarrow> pyfloat \<Rightarrow> TurboState" where
  "count_outcome thr s ymax =
     (if fl_less (improvement_threshold thr (best_value s)) ymax
      then s\<lparr>success_counter := success_counter s + 1, failure_counter := 0\<rparr>
      else s\<lparr>success_counter := 0, failure_counter := failure_counter s + 1\<rparr>)"

definition resize_region :: "TurboState \<Rightarrow> TurboState" where
  "resize_region s =
     (if success_counter s = success_tolerance s
      then s\<lparr>length_st := min (2 * length_st s) (length_max s), success_counter := 0\<rparr>
      else if failure_counter s = failure_tolerance s
      then s\<lparr>length_st := length_st s / 2, failure_counter := 0\<rparr>
      else s)"

definition record_best :: "TurboState \<Rightarrow> pyfloat \<Rightarrow> TurboState" where
  "record_best s ymax = s\<lparr>best_value := max2_builtin (best_value s) ymax\<rparr>"

definition check_restart :: "TurboState \<Rightarrow> TurboState" where
  "check_restart s =
     (if length_st s < length_min s then s\<lparr>restart_triggered := True\<rparr> else s)"

definition update_state ::
  "(real \<Rightarrow> pyfloat) \<Rightarrow> TurboState \<Rightarrow> pyfloat list \<Rightarrow> py_error + TurboState" where
  "update_state thr s Y_next =
     (case max_builtin Y_next of
        Inl e \<Rightarrow> Inl e
      | Inr ymax \<Rightarrow>
          Inr (check_restart
                (record_best (resize_region (count_outcome thr s ymax)) ymax)))"

text \<open>A run of calls to \<open>update_state\<close>, one per batch of observations; it stops at
  the first exception.\<close>

fun update_states ::
  "(real \<Rightarrow> pyfloat) \<Rightarrow> TurboState \<Rightarrow> pyfloat list list \<Rightarrow> py_error + TurboState" where
  "update_states thr s [] = Inr s"
| "update_states thr s (Y # Ys) =
     (case update_state thr s Y of
        Inl e \<Rightarrow> Inl e
      | Inr s' \<Rightarrow> update_states thr s' Ys)"

section \<open>Tensors and the library calls\<close>

text \<open>
  The reductions of torch that the notebook uses. \<^verbatim>\<open>min\<close>, \<^verbatim>\<open>max\<close> and
  \<^verbatim>\<open>argmax\<close> raise inside torch on a tensor with no element. \<^verbatim>\<open>min\<close> and
  \<^verbatim>\<open>max\<close> are NaN as soon as one element is NaN. \<^verbatim>\<open>argmax\<close> returns the
  position of the first maximal element; the notebook calls it on \<^verbatim>\<open>Y\<close> after the
  assertion that \<^verbatim>\<open>Y\<close> is finite, so it is modelled on finite values.
\<close>

definition fl_min :: "pyfloat \<Rightarrow> pyfloat \<Rightarrow> pyfloat" where
  "fl_min a b = (if a = NaN \<or> b = NaN then NaN else if fl_less b a then b else a)"

definition fl_max :: "pyfloat \<Rightarrow> pyfloat \<Rightarrow> pyfloat" where
  "fl_max a b = (if a = NaN \<or> b = NaN then NaN else if fl_less a b then b else a)"

fun tensor_min :: "pyfloat list \<Rightarrow> py_error + pyfloat" where
  "tensor_min [] = Inl LibraryError"
| "tensor_min (x # xs) = Inr (fold fl_min xs x)"

fun tensor_max :: "pyfloat list \<Rightarrow> py_error + pyfloat" where
  "tensor_max [] = Inl LibraryError"
| "tensor_max (x # xs) = Inr (fold fl_max xs x)"

text \<open>\<open>argmax_acc ys i bi b\<close>: the items \<open>ys\<close> start at position \<open>i\<close>; the best
  item so far is \<open>b\<close>, at position \<open>bi\<close>.\<close>

fun argmax_acc :: "real list \<Rightarrow> nat \<Rightarrow> nat \<Rightarrow> real \<Rightarrow> nat" where
  "argmax_acc [] i bi b = bi"
| "argmax_acc (y # ys) i bi b =
     (if y > b then argmax_acc ys (Suc i) i y else argmax_acc ys (Suc i) bi b)"

fun tensor_argmax :: "real list \<Rightarrow> py_error + nat" where
  "tensor_argmax [] = Inl LibraryError"
| "tensor_argmax (y # ys) = Inr (argmax_acc ys 1 0 y)"

text \<open>\<^verbatim>\<open>X.shape[-1]\<close> of a tensor of rank two, given as its list of rows.\<close>

definition ncols :: "'a list list \<Rightarrow> nat" where
  "ncols X = (case X of [] \<Rightarrow> 0 | r # _ \<Rightarrow> length r)"

text \<open>\<^verbatim>\<open>torch.clamp(x, lo, hi)\<close> on one element.\<close>

definition clamp :: "real \<Rightarrow> real \<Rightarrow> real \<Rightarrow> real" where
  "clamp x lo hi = min (max x lo) hi"

text \<open>An elementwise operation on two tensors of rank one: equal lengths combine item by
  item, a tensor of one item is broadcast, any other pair of shapes raises inside torch.\<close>

definition broadcast2 ::
  "(real \<Rightarrow> real \<Rightarrow> real) \<Rightarrow> real list \<Rightarrow> real list \<Rightarrow> py_error + real list" where
  "broadcast2 f xs ys =
     (if length xs = length ys then Inr (map2 f xs ys)
      else if length xs = 1 then Inr (map (f (hd xs)) ys)
      else if length ys = 1 then Inr (map (\<lambda>x. f x (hd ys)) xs)
      else Inl LibraryError)"

text \<open>Python's \<^verbatim>\<open>needle in hay\<close> on two strings: \<open>needle\<close> occurs in \<open>hay\<close> as a
  contiguous piece.\<close>

fun starts_with :: "string \<Rightarrow> string \<Rightarrow> bool" where
  "starts_with hay [] = True"
| "starts_with [] (c # cs) = False"
| "starts_with (h # hs) (c # cs) = (h = c \<and> starts_with hs cs)"

fun str_contains :: "string \<Rightarrow> string \<Rightarrow> bool" where
  "str_contains [] needle = (needle = [])"
| "str_contains (h # hs) needle = (starts_with (h # hs) needle \<or> str_contains hs needle)"

text \<open>
  The Gaussian-process model \<^verbatim>\<open>ExactGPModel\<close> with its likelihood: the training
  data, the hyperparameters (constant mean, one lengthscale per input dimension, output
  scale, noise), the attribute \<^verbatim>\<open>training_iter\<close> and the mode flag that
  \<^verbatim>\<open>train()\<close> and \<^verbatim>\<open>eval()\<close> switch.
\<close>

record ExactGPModel =
  train_inputs :: "pyfloat list list"
  train_targets :: "pyfloat list"
  mean_constant :: real
  lengthscale :: "real list"
  outputscale :: real
  noise :: real
  training_iter :: nat
  training :: bool

text \<open>The values GPyTorch gives to freshly constructed hyperparameters are library
  constants; the model takes them as a parameter.\<close>

record gp_defaults =
  initial_constant :: real
  initial_lengthscale :: real
  initial_outputscale :: real
  initial_noise :: real

text \<open>
  The random draws of one call of \<^verbatim>\<open>generate_batch\<close>, as the libraries return them.
  \<open>sobol_draw dim n\<close> is the result of
  \<^verbatim>\<open>SobolEngine(dim, scramble=True).draw(n)\<close>: \<open>None\<close> when the library raises (the
  engine supports a bounded number of dimensions), else the entries of the matrix by row
  and column. \<open>rand_draw i j\<close> is entry \<open>(i, j)\<close> of
  \<^verbatim>\<open>torch.rand(n_candidates, dim)\<close>, and \<open>randint_draw k\<close> the source of item \<open>k\<close>
  of \<^verbatim>\<open>torch.randint(0, dim - 1, ...)\<close> (reduced into that range where it is used).
  \<open>posterior_draw model X_cand\<close> is the sample drawn from the posterior of the model at
  the candidate points, by index: \<open>None\<close> when GPyTorch raises (training inputs and
  targets of different sizes, a covariance matrix that cannot be factorised).
\<close>

record torch_draws =
  sobol_draw :: "nat \<Rightarrow> nat \<Rightarrow> (nat \<Rightarrow> nat \<Rightarrow> real) option"
  rand_draw :: "nat \<Rightarrow> nat \<Rightarrow> real"
  randint_draw :: "nat \<Rightarrow> nat"
  posterior_draw :: "ExactGPModel \<Rightarrow> real list list \<Rightarrow> (nat \<Rightarrow> real) option"

section \<open>Candidate generation\<close>

text \<open>
  The weights of \<^verbatim>\<open>generate_batch\<close>: the lengthscales, divided by their mean and
  then by their geometric mean. \<^verbatim>\<open>squeeze\<close> turns the lengthscale of a model with a
  single input dimension into a tensor of rank zero, whose \<^verbatim>\<open>len\<close> raises; with no
  lengthscale at all \<^verbatim>\<open>1.0 / len(weights)\<close> divides by zero.
\<close>

definition tr_weights :: "ExactGPModel \<Rightarrow> py_error + real list" where
  "tr_weights model =
     (let ls = lengthscale model in
      if length ls = 0 then Inl ZeroDivisionError
      else if length ls = 1 then Inl LibraryError
      else
        let w1 = map (\<lambda>w. w / (sum_list ls / real (length ls))) ls;
            w2 = map (\<lambda>w. w / prod_list (map (\<lambda>v. v powr (1 / real (length w1))) w1)) w1
        in Inr w2)"

text \<open>The bounds \<^verbatim>\<open>tr_lb\<close> and \<^verbatim>\<open>tr_ub\<close> of the trust region around
  \<^verbatim>\<open>x_center\<close>, clamped to the unit interval.\<close>

definition trust_region ::
  "TurboState \<Rightarrow> real list \<Rightarrow> real list \<Rightarrow> py_error + (real list \<times> real list)" where
  "trust_region state x_center weights =
     (case broadcast2 (\<lambda>x w. clamp (x - w * length_st state / 2) 0 1) x_center weights of
        Inl e \<Rightarrow> Inl e
      | Inr tr_lb \<Rightarrow>
          (case broadcast2 (\<lambda>x w. clamp (x + w * length_st state / 2) 0 1) x_center weights of
             Inl e \<Rightarrow> Inl e
           | Inr tr_ub \<Rightarrow> Inr (tr_lb, tr_ub)))"

text \<open>\<^verbatim>\<open>pert = tr_lb + (tr_ub - tr_lb) * pert\<close>, row by row, where \<open>sobol i j\<close> is
  entry \<open>(i, j)\<close> of the matrix that \<^verbatim>\<open>sobol.draw(n_candidates)\<close> returned.\<close>

definition perturbations ::
  "(nat \<Rightarrow> nat \<Rightarrow> real) \<Rightarrow> nat \<Rightarrow> nat \<Rightarrow> real list \<Rightarrow> real list \<Rightarrow> real list list" where
  "perturbations sobol n d tr_lb tr_ub =
     map (\<lambda>i. map (\<lambda>(j, lb, ub). lb + (ub - lb) * sobol i j)
                (zip [0..<d] (zip tr_lb tr_ub)))
       [0..<n]"

text \<open>
  The perturbation mask: entry \<open>(i, j)\<close> is set when the uniform draw is at most
  \<^verbatim>\<open>prob_perturb\<close>; \<^verbatim>\<open>ind\<close> lists the rows with no entry set, and each of them
  gets one entry set, in a column drawn by \<^verbatim>\<open>randint(0, dim - 1)\<close>. The
  variable \<^verbatim>\<open>mask\<close> is written \<open>msk\<close>.
\<close>

definition perturbation_mask :: "torch_draws \<Rightarrow> nat \<Rightarrow> nat \<Rightarrow> bool list list" where
  "perturbation_mask lib n d =
     (let prob_perturb = min (20 / real d) 1;
          msk = map (\<lambda>i. map (\<lambda>j. rand_draw lib i j \<le> prob_perturb) [0..<d]) [0..<n];
          ind = filter (\<lambda>i. length (filter (\<lambda>b. b) (msk ! i)) = 0) [0..<n];
          cols = map (\<lambda>k. randint_draw lib k mod (d - 1)) [0..<length ind]
      in fold (\<lambda>(i, c) m. m[i := (m ! i)[c := True]]) (zip ind cols) msk)"

text \<open>\<^verbatim>\<open>X_cand\<close>: every row is the centre, with the masked entries replaced by the
  perturbation.\<close>

definition candidates ::
  "real list \<Rightarrow> bool list list \<Rightarrow> real list list \<Rightarrow> real list list" where
  "candidates x_center msk pert =
     map2 (\<lambda>mrow prow. map (\<lambda>(m, p, c). if m then p else c) (zip mrow (zip prow x_center)))
       msk pert"

text \<open>
  The Thompson-sampling branch. With a single input dimension it always ends in an
  exception of torch (\<^verbatim>\<open>randint(0, 0)\<close> has an empty range, and the shapes of the
  mask and of the perturbations differ when the bounds were broadcast). The model is
  switched to evaluation mode before the posterior is sampled; the candidate with the
  largest sampled value is returned. An exception inside the Sobol engine or inside the
  sampling of the posterior ends the call.
\<close>

definition thompson_sample ::
  "torch_draws \<Rightarrow> ExactGPModel \<Rightarrow> nat \<Rightarrow> nat \<Rightarrow> real list \<Rightarrow> real list \<Rightarrow> real list
     \<Rightarrow> py_error + real list" where
  "thompson_sample lib model d n x_center tr_lb tr_ub =
     (if d \<le> 1 then Inl LibraryError
      else
        case sobol_draw lib d n of
          None \<Rightarrow> Inl LibraryError
        | Some sobol \<Rightarrow>
        let pert = perturbations sobol n d tr_lb tr_ub;
            msk = perturbation_mask lib n d;
            X_cand = candidates x_center msk pert
        in
        case posterior_draw lib (model\<lparr>training := False\<rparr>) X_cand of
          None \<Rightarrow> Inl LibraryError
        | Some posterior_sample \<Rightarrow>
        case tensor_argmax (map posterior_sample [0..<n]) of
          Inl e \<Rightarrow> Inl e
        | Inr X_next_idx \<Rightarrow> Inr (X_cand ! X_next_idx))"

text \<open>
  \<^verbatim>\<open>generate_batch(state, model, X, Y, n_candidates = ..., acqf = ...)\<close>. The
  parameters \<^verbatim>\<open>batch_size\<close>, \<^verbatim>\<open>num_restarts\<close> and \<^verbatim>\<open>raw_samples\<close> are never
  read by the body and are left out. The first assertion is
  \<^verbatim>\<open>assert acqf in ("ts")\<close>, where \<^verbatim>\<open>("ts")\<close> is the string itself; the second is
  \<^verbatim>\<open>assert X.min() >= 0.0 and X.max() <= 1.0 and torch.all(torch.isfinite(Y))\<close>.
  Once it has passed, every element of \<^verbatim>\<open>X\<close> and of \<^verbatim>\<open>Y\<close> is finite, and the
  rest of the body computes on the real numbers they denote.
  When \<^verbatim>\<open>acqf\<close> differs from \<^verbatim>\<open>"ts"\<close> the branch that assigns
  \<^verbatim>\<open>X_next\<close> is skipped and \<^verbatim>\<open>return X_next\<close> reads an unassigned name.
\<close>

definition generate_batch ::
  "torch_draws \<Rightarrow> TurboState \<Rightarrow> ExactGPModel \<Rightarrow> pyfloat list list \<Rightarrow> pyfloat list
     \<Rightarrow> nat option \<Rightarrow> string \<Rightarrow> py_error + real list" where
  "generate_batch lib state model X Y n_candidates acqf =
     (if \<not> str_contains ''ts'' acqf then Inl AssertionError
      else
        case tensor_min (concat X) of
          Inl e \<Rightarrow> Inl e
        | Inr xmin \<Rightarrow>
        case tensor_max (concat X) of
          Inl e \<Rightarrow> Inl e
        | Inr xmax \<Rightarrow>
        if \<not> (fl_le (Finite 0) xmin \<and> fl_le xmax (Finite 1) \<and> list_all isfinite Y)
        then Inl AssertionError
        else
          let d = ncols X;
              n = (case n_candidates of
                     None \<Rightarrow> min 5000 (max 2000 (200 * d))
                   | Some k \<Rightarrow> k)
          in
          case tensor_argmax (map the_real Y) of
            Inl e \<Rightarrow> Inl e
          | Inr i \<Rightarrow>
          if i \<ge> length X then Inl LibraryError
          else
            let x_center = map the_real (X ! i) in
            case tr_weights model of
              Inl e \<Rightarrow> Inl e
            | Inr weights \<Rightarrow>
            case trust_region state x_center weights of
              Inl e \<Rightarrow> Inl e
            | Inr (tr_lb, tr_ub) \<Rightarrow>
            if acqf = ''ts'' then thompson_sample lib model d n x_center tr_lb tr_ub
            else Inl UnboundLocalError)"

section \<open>The query function and the driver loop\<close>

text \<open>\<^verbatim>\<open>ExactGPModel(train_x, train_y, likelihood)\<close>: a constant mean, an RBF kernel
  with one lengthscale per column of \<^verbatim>\<open>train_x\<close> inside a scale kernel, and
  \<^verbatim>\<open>training_iter = 2000\<close>. A module of torch is constructed in training mode.\<close>

definition ExactGPModel_init ::
  "gp_defaults \<Rightarrow> pyfloat list list \<Rightarrow> pyfloat list \<Rightarrow> ExactGPModel" where
  "ExactGPModel_init gd train_x train_y =
     \<lparr>train_inputs = train_x, train_targets = train_y,
      mean_constant = initial_constant gd,
      lengthscale = replicate (ncols train_x) (initial_lengthscale gd),
      outputscale = initial_outputscale gd, noise = initial_noise gd,
      training_iter = 2000, training = True\<rparr>"

text \<open>
  \<^verbatim>\<open>next_query_via_TurBO\<close>: the model is built and put in training mode; the optimizer
  and the marginal log likelihood are constructed and never used, since the loop over
  \<^verbatim>\<open>range(model.training_iter)\<close> is commented out (with it the only use of the
  parameter \<^verbatim>\<open>verbose\<close>, which is left out); then \<^verbatim>\<open>generate_batch\<close> is called
  with its defaults.
\<close>

definition next_query_via_TurBO ::
  "gp_defaults \<Rightarrow> torch_draws \<Rightarrow> pyfloat list list \<Rightarrow> pyfloat list \<Rightarrow> TurboState
     \<Rightarrow> py_error + real list" where
  "next_query_via_TurBO gd lib train_x train_y turbo_state =
     (let model = ExactGPModel_init gd train_x train_y;
          model = model\<lparr>training := True\<rparr>
      in generate_batch lib turbo_state model train_x train_y None ''ts'')"

text \<open>The arrays \<^verbatim>\<open>functions\<close> and \<^verbatim>\<open>dimensions\<close> of the driver cell,
  indexing into an array as numpy does it (a negative index counts from the end), and
  the data the cell loads for one function: the two files of initial data and the points
  read from the CSV file.\<close>

definition functions_arr :: "int list" where
  "functions_arr = map (\<lambda>i. int i + 1) [0..<8]"

definition dimensions :: "int list" where
  "dimensions = [2, 2, 3, 4, 4, 5, 6, 8]"

definition np_index :: "'a list \<Rightarrow> int \<Rightarrow> py_error + 'a" where
  "np_index xs k =
     (if 0 \<le> k \<and> k < int (length xs) then Inr (xs ! nat k)
      else if k < 0 \<and> - int (length xs) \<le> k then Inr (xs ! nat (int (length xs) + k))
      else Inl LibraryError)"

record function_data =
  initial_inputs :: "pyfloat list list"
  initial_outputs :: "pyfloat list"
  initial_inputs_2 :: "pyfloat list list"
  initial_outputs_2 :: "pyfloat list"
  x_new :: "pyfloat list list"
  y_new :: "pyfloat list"

text \<open>The state of one run:
  \<^verbatim>\<open>TurboState(dim = dimensions[i-1], best_value = torch.max(train_y).float())\<close>, where
  \<^verbatim>\<open>train_y\<close> still holds the outputs of the first file only. The conversion
  \<^verbatim>\<open>.float()\<close> to single precision is left out: it changes no value that single
  precision represents, as those of the sample data below.\<close>

definition driver_state :: "int \<Rightarrow> function_data \<Rightarrow> py_error + TurboState" where
  "driver_state i fd =
     (case np_index dimensions (i - 1) of
        Inl e \<Rightarrow> Inl e
      | Inr d \<Rightarrow>
          (case tensor_max (initial_outputs fd) of
             Inl e \<Rightarrow> Inl e
           | Inr b \<Rightarrow> TurboState_new d b))"

text \<open>The outputs the run then works on:
  \<^verbatim>\<open>train_y = torch.concat((train_y, train_y_2, y_new))\<close>, and the inputs likewise.\<close>

definition driver_train_x :: "function_data \<Rightarrow> pyfloat list list" where
  "driver_train_x fd = initial_inputs fd @ initial_inputs_2 fd @ x_new fd"

definition driver_train_y :: "function_data \<Rightarrow> pyfloat list" where
  "driver_train_y fd = initial_outputs fd @ initial_outputs_2 fd @ y_new fd"

text \<open>One pass of the body of the driver loop, for function \<open>i\<close>: the state of the run
  and the query that is printed.\<close>

definition driver_iteration ::
  "gp_defaults \<Rightarrow> torch_draws \<Rightarrow> int \<Rightarrow> function_data \<Rightarrow> py_error + (TurboState \<times> real list)"
  where
  "driver_iteration gd lib i fd =
     (case driver_state i fd of
        Inl e \<Rightarrow> Inl e
      | Inr state \<Rightarrow>
          (case next_query_via_TurBO gd lib (driver_train_x fd) (driver_train_y fd) state of
             Inl e \<Rightarrow> Inl e
           | Inr next_query \<Rightarrow> Inr (state, next_query)))"

section \<open>Sample inputs\<close>

text \<open>The state \<^verbatim>\<open>TurboState(dim = 2, best_value = 0.0)\<close>, as the dataclass builds
  it: the concrete theorems below start from it.\<close>

definition state_2 :: TurboState where
  "state_2 = \<lparr>dim_st = 2, batch_size = 1, length_st = 4 / 5, length_min = 1 / 128,
       length_max = 8 / 5, failure_counter = 0, failure_tolerance = 4,
       success_counter = 0, success_tolerance = 3, best_value = Finite 0,
       restart_triggered = False\<rparr>"

text \<open>
  Draws of the libraries for a run with two input dimensions and two candidates: the Sobol
  point \<open>(1 / 2, 1 / 4)\<close> for every candidate, uniform draws of \<open>1 / 2\<close>, and a
  posterior sample that grows with the index of the candidate. Together with them, sample
  values for the fresh hyperparameters, two observed points in the unit square with their
  outputs, and the data loaded for one function.
\<close>

definition draws_2 :: torch_draws where
  "draws_2 =
     \<lparr>sobol_draw = (\<lambda>d n. Some (\<lambda>i j. if j = 0 then 1 / 2 else 1 / 4)),
      rand_draw = (\<lambda>i j. 1 / 2), randint_draw = (\<lambda>k. 0),
      posterior_draw = (\<lambda>m X. Some (\<lambda>i. real i))\<rparr>"

definition defaults_1 :: gp_defaults where
  "defaults_1 =
     \<lparr>initial_constant = 0, initial_lengthscale = 1, initial_outputscale = 1,
      initial_noise = 1\<rparr>"

definition X_2 :: "pyfloat list list" where
  "X_2 = [[Finite (1 / 2), Finite (1 / 2)], [Finite (1 / 4), Finite (3 / 4)]]"

definition Y_2 :: "pyfloat list" where
  "Y_2 = [Finite 0, Finite 1]"

definition data_1 :: function_data where
  "data_1 =
     \<lparr>initial_inputs = [[Finite (1 / 2), Finite (1 / 2)]], initial_outputs = [Finite 1],
      initial_inputs_2 = [[Finite (1 / 4), Finite (3 / 4)]], initial_outputs_2 = [Finite 2],
      x_new = [[Finite (1 / 8), Finite (1 / 8)]], y_new = [Finite 3]\<rparr>"

section \<open>Properties of the trust-region state\<close>

subsection \<open>Comparing floats\<close>

lemma fl_less_NaN [simp]: "\<not> fl_less a NaN" "\<not> fl_less NaN b"
  by (cases a; simp) (cases b; simp)

lemma fl_less_irrefl [simp]: "\<not> fl_less a a"
  by (cases a) simp_all


lemma fl_less_asym: "fl_less a b \<Longrightarrow> \<not> fl_less b a"
  by (cases a; cases b) simp_all

lemma fl_less_Finite_iff:
  "fl_less (Finite a) v \<longleftrightarrow> v = PosInf \<or> (\<exists>b. v = Finite b \<and> a < b)"
  "fl_less v (Finite b) \<longleftrightarrow> v = NegInf \<or> (\<exists>a. v = Finite a \<and> a < b)"
  by (cases v; simp)+

lemma fl_le_Finite [simp]: "fl_le (Finite a) (Finite b) \<longleftrightarrow> a \<le> b"
  by (auto simp: fl_le_def)

lemma fl_le_NaN [simp]: "\<not> fl_le a NaN" "\<not> fl_le NaN b"
  by (auto simp: fl_le_def)

lemma unit_float:
  "fl_le (Finite 0) v \<and> fl_le v (Finite 1) \<longleftrightarrow> (\<exists>r. v = Finite r \<and> 0 \<le> r \<and> r \<le> 1)"
  by (cases v) (auto simp: fl_le_def)

lemma isfinite_iff: "isfinite v \<longleftrightarrow> (\<exists>r. v = Finite r)"
  by (cases v) simp_all

subsection \<open>The steps of \<open>update_state\<close>, field by field\<close>

lemma count_outcome_frame:
  "length_st (count_outcome thr s y) = length_st s"
  "length_min (count_outcome thr s y) = length_min s"
  "length_max (count_outcome thr s y) = length_max s"
  "best_value (count_outcome thr s y) = best_value s"
  "restart_triggered (count_outcome thr s y) = restart_triggered s"
  "success_tolerance (count_outcome thr s y) = success_tolerance s"
  "failure_tolerance (count_outcome thr s y) = failure_tolerance s"
  by (simp_all add: count_outcome_def)


lemma resize_region_frame:
  "length_min (resize_region s) = length_min s"
  "length_max (resize_region s) = length_max s"
  "best_value (resize_region s) = best_value s"
  "restart_triggered (resize_region s) = restart_triggered s"
  by (simp_all add: resize_region_def)



lemma record_best_frame:
  "length_st (record_best s y) = length_st s"
  "length_min (record_best s y) = length_min s"
  "length_max (record_best s y) = length_max s"
  "restart_triggered (record_best s y) = restart_triggered s"
  "success_counter (record_best s y) = success_counter s"
  "failure_counter (record_best s y) = failure_counter s"
  "best_value (record_best s y) = max2_builtin (best_value s) y"
  by (simp_all add: record_best_def)

lemma check_restart_frame:
  "length_st (check_restart s) = length_st s"
  "length_min (check_restart s) = length_min s"
  "length_max (check_restart s) = length_max s"
  "best_value (check_restart s) = best_value s"
  "success_counter (check_restart s) = success_counter s"
  "failure_counter (check_restart s) = failure_counter s"
  "restart_triggered (check_restart s) = (restart_triggered s \<or> length_st s < length_min s)"
  by (simp_all add: check_restart_def)

lemmas stage_simps =
  count_outcome_frame resize_region_frame record_best_frame check_restart_frame

subsection \<open>The built-in maximum\<close>

lemma max2_builtin_Finite [simp]: "max2_builtin (Finite a) (Finite b) = Finite (max a b)"
  by (simp add: max2_builtin_def max_def)




lemma max_builtin_nonempty: "Y \<noteq> [] \<Longrightarrow> \<exists>ymax. max_builtin Y = Inr ymax"
  by (cases Y) simp_all

lemma update_state_Inr:
  "max_builtin Y = Inr ymax \<Longrightarrow>
     update_state thr s Y =
       Inr (check_restart
             (record_best (resize_region (count_outcome thr s ymax)) ymax))"
  by (simp add: update_state_def)

lemma update_state_empty: "update_state thr s [] = Inl ValueError"
  by (simp add: update_state_def)

subsection \<open>The sample state is the one the dataclass builds, and it shrinks\<close>

lemma TurboState_new_2: "TurboState_new 2 (Finite 0) = Inr state_2"
  by (simp add: TurboState_new_def post_init_def state_2_def power_divide)

lemma state_2_after_27_failures:
  "update_states thr_exact state_2 (replicate 27 [Finite 0]) =
     Inr (state_2\<lparr>length_st := 1 / 80, failure_counter := 3\<rparr>)"
  by (simp add: state_2_def update_state_def count_outcome_def thr_exact_def resize_region_def
      record_best_def check_restart_def max2_builtin_def eval_nat_numeral)

subsection \<open>The width of the trust region\<close>




subsection \<open>The streak counters\<close>





subsection \<open>The best value\<close>







subsection \<open>The restart flag\<close>

lemma update_state_restart_kept:
  "restart_triggered s \<Longrightarrow> update_state thr s Y = Inr s' \<Longrightarrow> restart_triggered s'"
  by (auto simp: update_state_def stage_simps split: sum.splits)

lemma update_states_restart_kept:
  "restart_triggered s \<Longrightarrow> update_states thr s Ys = Inr s' \<Longrightarrow> restart_triggered s'"
proof (induction Ys arbitrary: s)
  case Nil
  then show ?case by simp
next
  case (Cons Y Ys)
  from Cons.prems(2) obtain s1 where s1: "update_state thr s Y = Inr s1"
    and rest: "update_states thr s1 Ys = Inr s'"
    by (auto split: sum.splits)
  from update_state_restart_kept [OF Cons.prems(1) s1] have "restart_triggered s1" .
  from Cons.IH [OF this rest] show ?case .
qed

text \<open>
  Claim C6. On a non-empty batch \<^verbatim>\<open>update_state\<close> returns a state in which
  \<^verbatim>\<open>restart_triggered\<close> holds exactly when it held before or the width after the
  call (halved by it or not) is below \<^verbatim>\<open>length_min\<close>; and once the flag holds, it
  holds after any run of calls.
\<close>

theorem update_state_restart:
  assumes "Y_next \<noteq> []"
  shows "(\<exists>s'. update_state thr s Y_next = Inr s' \<and>
            (restart_triggered s' \<longleftrightarrow>
               restart_triggered s \<or> length_st s' < length_min s')) \<and>
         (\<forall>Ys s''. restart_triggered s \<longrightarrow> update_states thr s Ys = Inr s'' \<longrightarrow>
            restart_triggered s'')"
proof -
  from max_builtin_nonempty [OF assms] obtain ymax where y: "max_builtin Y_next = Inr ymax" ..
  from update_states_restart_kept show ?thesis
    by (simp add: update_state_Inr [OF y] stage_simps)
qed

text \<open>The theorem of C6 at a width of \<open>1 / 100\<close> that the call halves below
  \<open>1 / 128\<close>, where the flag is set, and at a state whose flag is already set and whose
  width is not below the minimum, where the flag stays.\<close>

theorem update_state_restart_witness:
  "update_state thr_exact (state_2\<lparr>length_st := 1 / 100, failure_counter := 3\<rparr>)
       [Finite 0] =
     Inr (state_2\<lparr>length_st := 1 / 200, restart_triggered := True\<rparr>) \<and>
   update_state thr_exact (state_2\<lparr>restart_triggered := True\<rparr>) [Finite 1] =
     Inr (state_2\<lparr>success_counter := 1, best_value := Finite 1, restart_triggered := True\<rparr>)"
proof -
  have h: "[Finite 0] \<noteq> []" "[Finite 1] \<noteq> []" by simp_all
  from update_state_restart
      [OF h(1), of thr_exact "state_2\<lparr>length_st := 1 / 100, failure_counter := 3\<rparr>"]
    update_state_restart [OF h(2), of thr_exact "state_2\<lparr>restart_triggered := True\<rparr>"]
  show ?thesis
    by (simp add: state_2_def update_state_def count_outcome_def thr_exact_def resize_region_def
        record_best_def check_restart_def max2_builtin_def)
qed

section \<open>Properties of candidate generation\<close>

subsection \<open>Reductions\<close>

lemma fl_le_fl_min: "fl_le c (fl_min a b) \<longleftrightarrow> fl_le c a \<and> fl_le c b"
  by (cases a; cases b; cases c) (auto simp: fl_min_def fl_le_def)

lemma fl_max_fl_le: "fl_le (fl_max a b) c \<longleftrightarrow> fl_le a c \<and> fl_le b c"
  by (cases a; cases b; cases c) (auto simp: fl_max_def fl_le_def)

lemma fold_fl_min_ge: "fl_le c (fold fl_min xs x) \<longleftrightarrow> (\<forall>v \<in> set (x # xs). fl_le c v)"
  by (induction xs arbitrary: x) (auto simp: fl_le_fl_min)

lemma fold_fl_max_le: "fl_le (fold fl_max xs x) c \<longleftrightarrow> (\<forall>v \<in> set (x # xs). fl_le v c)"
  by (induction xs arbitrary: x) (auto simp: fl_max_fl_le)

lemma tensor_min_ge: "tensor_min xs = Inr m \<Longrightarrow> fl_le c m \<longleftrightarrow> (\<forall>v \<in> set xs. fl_le c v)"
  by (cases xs) (auto simp only: tensor_min.simps fold_fl_min_ge sum.inject sum.distinct)

lemma tensor_max_le: "tensor_max xs = Inr m \<Longrightarrow> fl_le m c \<longleftrightarrow> (\<forall>v \<in> set xs. fl_le v c)"
  by (cases xs) (auto simp only: tensor_max.simps fold_fl_max_le sum.inject sum.distinct)

lemma tensor_min_Inl: "tensor_min xs = Inl e \<longleftrightarrow> xs = [] \<and> e = LibraryError"
  by (cases xs) auto

lemma tensor_max_Inl: "tensor_max xs = Inl e \<longleftrightarrow> xs = [] \<and> e = LibraryError"
  by (cases xs) auto

lemma tensor_min_max_total:
  "xs \<noteq> [] \<Longrightarrow> \<exists>lo hi. tensor_min xs = Inr lo \<and> tensor_max xs = Inr hi"
  by (cases xs) simp_all

lemma range_check:
  assumes "tensor_min xs = Inr lo" and "tensor_max xs = Inr hi"
  shows "fl_le (Finite 0) lo \<and> fl_le hi (Finite 1) \<longleftrightarrow>
           (\<forall>v \<in> set xs. fl_le (Finite 0) v \<and> fl_le v (Finite 1))"
  using tensor_min_ge [OF assms(1), of "Finite 0"] tensor_max_le [OF assms(2), of "Finite 1"]
  by auto

lemma outside_unit:
  "\<not> (fl_le (Finite 0) v \<and> fl_le v (Finite 1)) \<longleftrightarrow>
     v = NaN \<or> fl_less v (Finite 0) \<or> fl_less (Finite 1) v"
  by (cases v) (auto simp: fl_le_def)

lemma unit_the_real:
  assumes "\<forall>v \<in> set row. fl_le (Finite 0) v \<and> fl_le v (Finite 1)"
  shows "\<forall>r \<in> set (map the_real row). 0 \<le> r \<and> r \<le> 1"
proof
  fix r
  assume "r \<in> set (map the_real row)"
  then obtain v where v: "v \<in> set row" "r = the_real v" by auto
  with assms have "fl_le (Finite 0) v \<and> fl_le v (Finite 1)" by blast
  then obtain q where "v = Finite q" "0 \<le> q" "q \<le> 1" unfolding unit_float by blast
  with v(2) show "0 \<le> r \<and> r \<le> 1" by simp
qed

lemma argmax_acc_less: "bi < i \<Longrightarrow> argmax_acc ys i bi b < i + length ys"
  by (induction ys i bi b rule: argmax_acc.induct) (auto simp: less_Suc_eq)

lemma tensor_argmax_Inr: "tensor_argmax ys = Inr k \<Longrightarrow> k < length ys"
  using argmax_acc_less [of 0 1] by (cases ys) auto

lemma tensor_argmax_Inl: "tensor_argmax ys = Inl e \<longleftrightarrow> ys = [] \<and> e = LibraryError"
  by (cases ys) auto

lemma tensor_argmax_total: "ys \<noteq> [] \<Longrightarrow> \<exists>k. tensor_argmax ys = Inr k \<and> k < length ys"
  using argmax_acc_less [of 0 1] by (cases ys) auto

subsection \<open>Clamping and broadcasting\<close>

lemma clamp_unit: "0 \<le> clamp x 0 1 \<and> clamp x 0 1 \<le> 1"
  by (simp add: clamp_def)

lemma broadcast2_set:
  assumes "broadcast2 f xs ys = Inr zs" and "z \<in> set zs"
  shows "\<exists>x y. z = f x y"
proof -
  consider "zs = map2 f xs ys" | "zs = map (f (hd xs)) ys" | "zs = map (\<lambda>x. f x (hd ys)) xs"
    using assms(1) by (auto simp: broadcast2_def split: if_splits)
  then show ?thesis
  proof cases
    case 1
    with assms(2) obtain p where "p \<in> set (zip xs ys)" "z = f (fst p) (snd p)"
      by (auto simp: case_prod_beta)
    then show ?thesis by blast
  next
    case 2
    with assms(2) show ?thesis by auto
  next
    case 3
    with assms(2) show ?thesis by auto
  qed
qed

lemma broadcast2_same_length:
  "length xs = length ys \<Longrightarrow> broadcast2 f xs ys = Inr (map2 f xs ys)"
  by (simp add: broadcast2_def)

lemma broadcast2_Inl: "broadcast2 f xs ys = Inl e \<Longrightarrow> e = LibraryError"
  by (auto simp: broadcast2_def split: if_splits)

lemma trust_region_unit:
  assumes "trust_region state x_center weights = Inr (tr_lb, tr_ub)"
  shows "(\<forall>v \<in> set tr_lb. 0 \<le> v \<and> v \<le> 1) \<and> (\<forall>v \<in> set tr_ub. 0 \<le> v \<and> v \<le> 1)"
proof -
  from assms have lb: "broadcast2 (\<lambda>x w. clamp (x - w * length_st state / 2) 0 1) x_center weights = Inr tr_lb"
    and ub: "broadcast2 (\<lambda>x w. clamp (x + w * length_st state / 2) 0 1) x_center weights = Inr tr_ub"
    by (auto simp: trust_region_def split: sum.splits)
  show ?thesis
    using broadcast2_set [OF lb] broadcast2_set [OF ub] clamp_unit by metis
qed

lemma trust_region_Inl: "trust_region state x_center weights = Inl e \<Longrightarrow> e = LibraryError"
  by (auto simp: trust_region_def split: sum.splits dest: broadcast2_Inl)

lemma trust_region_same_length:
  assumes "length x_center = length weights"
  shows "\<exists>tr_lb tr_ub. trust_region state x_center weights = Inr (tr_lb, tr_ub)
           \<and> length tr_lb = length x_center \<and> length tr_ub = length x_center"
  using assms by (simp add: trust_region_def broadcast2_same_length)

lemma tr_weights_Inl: "tr_weights model = Inl e \<Longrightarrow> e = ZeroDivisionError \<or> e = LibraryError"
  by (auto simp: tr_weights_def Let_def split: if_splits)

lemma tr_weights_total:
  "2 \<le> length (lengthscale model) \<Longrightarrow>
     \<exists>ws. tr_weights model = Inr ws \<and> length ws = length (lengthscale model)"
  by (auto simp: tr_weights_def Let_def)

subsection \<open>Perturbations, mask and candidates\<close>

lemma convex_unit:
  fixes l u p :: real
  assumes "0 \<le> l" "l \<le> 1" "0 \<le> u" "u \<le> 1" "0 \<le> p" "p \<le> 1"
  shows "0 \<le> l + (u - l) * p \<and> l + (u - l) * p \<le> 1"
proof -
  define x where "x = l * (1 - p)"
  define y where "y = u * p"
  have eq: "l + (u - l) * p = x + y" by (simp add: x_def y_def algebra_simps)
  have a: "0 \<le> x" using assms by (simp add: x_def)
  have b: "0 \<le> y" using assms by (simp add: y_def)
  have "l * (1 - p) \<le> 1 * (1 - p)" using assms by (intro mult_right_mono) simp_all
  then have c: "x \<le> 1 - p" by (simp add: x_def)
  have "u * p \<le> 1 * p" using assms by (intro mult_right_mono) simp_all
  then have d: "y \<le> p" by (simp add: y_def)
  from a b c d show ?thesis unfolding eq by linarith
qed

lemma perturbations_length: "length (perturbations sobol n d tr_lb tr_ub) = n"
  by (simp add: perturbations_def)

lemma perturbations_row_length:
  "row \<in> set (perturbations sobol n d tr_lb tr_ub) \<Longrightarrow>
     length row = min d (min (length tr_lb) (length tr_ub))"
  by (auto simp: perturbations_def)

lemma perturbations_unit:
  assumes lb: "\<forall>v \<in> set tr_lb. 0 \<le> v \<and> v \<le> 1"
    and ub: "\<forall>v \<in> set tr_ub. 0 \<le> v \<and> v \<le> 1"
    and sobol: "\<forall>i j. 0 \<le> sobol i j \<and> sobol i j \<le> 1"
    and row: "row \<in> set (perturbations sobol n d tr_lb tr_ub)"
    and v: "v \<in> set row"
  shows "0 \<le> v \<and> v \<le> 1"
proof -
  from row obtain i where
    "row = map (\<lambda>(j, l, u). l + (u - l) * sobol i j) (zip [0..<d] (zip tr_lb tr_ub))"
    by (auto simp: perturbations_def)
  with v obtain j l u where mem: "(j, l, u) \<in> set (zip [0..<d] (zip tr_lb tr_ub))"
    and veq: "v = l + (u - l) * sobol i j"
    by auto
  from mem have "(l, u) \<in> set (zip tr_lb tr_ub)" by (rule set_zip_rightD)
  then have "l \<in> set tr_lb" "u \<in> set tr_ub"
    by (auto dest: set_zip_leftD set_zip_rightD)
  with lb ub sobol show ?thesis unfolding veq by (intro convex_unit) auto
qed

lemma fold_set_entry_lengths:
  "map length (fold (\<lambda>(i, c) m. m[i := (m ! i)[c := True]]) ps m) = map length m"
proof (induction ps arbitrary: m)
  case Nil
  show ?case by simp
next
  case (Cons p ps)
  obtain i c where p: "p = (i, c)" by (cases p)
  have "map length (m[i := (m ! i)[c := True]]) = map length m"
    by (cases "i < length m") (simp_all add: map_update list_update_same_conv list_update_beyond)
  with Cons show ?case by (simp add: p)
qed

lemma perturbation_mask_lengths: "map length (perturbation_mask lib n d) = replicate n d"
proof -
  have "map length (map (\<lambda>i. map (\<lambda>j. rand_draw lib i j \<le> min (20 / real d) 1) [0..<d]) [0..<n])
          = replicate n d"
    by (simp add: map_replicate_const comp_def)
  then show ?thesis
    by (simp add: perturbation_mask_def Let_def fold_set_entry_lengths)
qed

lemma perturbation_mask_length: "length (perturbation_mask lib n d) = n"
  using arg_cong [OF perturbation_mask_lengths, of length] by simp

lemma candidates_length:
  "length (candidates x_center msk pert) = min (length msk) (length pert)"
  by (simp add: candidates_def)

lemma candidates_nth:
  assumes "k < length msk" "k < length pert"
  shows "candidates x_center msk pert ! k =
           map (\<lambda>(m, p, c). if m then p else c) (zip (msk ! k) (zip (pert ! k) x_center))"
  using assms by (simp add: candidates_def)

lemma candidates_nth_entries:
  assumes k: "k < length msk" "k < length pert"
    and v: "v \<in> set (candidates x_center msk pert ! k)"
  shows "v \<in> set x_center \<or> v \<in> set (pert ! k)"
proof -
  from v obtain m p c where mem: "(m, p, c) \<in> set (zip (msk ! k) (zip (pert ! k) x_center))"
    and veq: "v = (if m then p else c)"
    unfolding candidates_nth [OF k] by auto
  from mem have "(p, c) \<in> set (zip (pert ! k) x_center)" by (rule set_zip_rightD)
  then have "p \<in> set (pert ! k)" "c \<in> set x_center"
    by (auto dest: set_zip_leftD set_zip_rightD)
  then show ?thesis by (simp add: veq)
qed

subsection \<open>The Thompson-sampling branch\<close>

lemma thompson_sample_Inr:
  assumes "thompson_sample lib model d n x_center tr_lb tr_ub = Inr x"
  shows "\<exists>sobol. \<exists>k < n. 2 \<le> d \<and> sobol_draw lib d n = Some sobol \<and>
           x = candidates x_center (perturbation_mask lib n d)
                 (perturbations sobol n d tr_lb tr_ub) ! k"
proof -
  from assms have d: "2 \<le> d"
    by (auto simp: thompson_sample_def split: if_splits)
  with assms obtain sobol where sobol: "sobol_draw lib d n = Some sobol"
    by (auto simp: thompson_sample_def split: option.splits)
  let ?X = "candidates x_center (perturbation_mask lib n d)
              (perturbations sobol n d tr_lb tr_ub)"
  from assms d sobol obtain sample where
    sample: "posterior_draw lib (model\<lparr>training := False\<rparr>) ?X = Some sample"
    by (auto simp: thompson_sample_def Let_def split: option.splits)
  with assms d sobol obtain k where k: "tensor_argmax (map sample [0..<n]) = Inr k"
    and x: "x = ?X ! k"
    by (auto simp: thompson_sample_def Let_def split: sum.splits)
  from tensor_argmax_Inr [OF k] have "k < n" by simp
  with d sobol x show ?thesis by blast
qed

lemma thompson_sample_Inl:
  "thompson_sample lib model d n x_center tr_lb tr_ub = Inl e \<Longrightarrow> e = LibraryError"
  by (auto simp: thompson_sample_def Let_def tensor_argmax_Inl
      split: if_splits sum.splits option.splits)

lemma thompson_sample_unit:
  assumes res: "thompson_sample lib model d n x_center tr_lb tr_ub = Inr x"
    and c: "\<forall>v \<in> set x_center. 0 \<le> v \<and> v \<le> 1"
    and lb: "\<forall>v \<in> set tr_lb. 0 \<le> v \<and> v \<le> 1"
    and ub: "\<forall>v \<in> set tr_ub. 0 \<le> v \<and> v \<le> 1"
    and range: "\<forall>d n sobol. sobol_draw lib d n = Some sobol \<longrightarrow>
                  (\<forall>i j. 0 \<le> sobol i j \<and> sobol i j \<le> 1)"
  shows "\<forall>v \<in> set x. 0 \<le> v \<and> v \<le> 1"
proof
  fix v assume v: "v \<in> set x"
  from thompson_sample_Inr [OF res] obtain sobol k where k: "k < n"
    and sobol: "sobol_draw lib d n = Some sobol"
    and x: "x = candidates x_center (perturbation_mask lib n d)
                  (perturbations sobol n d tr_lb tr_ub) ! k"
    by blast
  let ?P = "perturbations sobol n d tr_lb tr_ub"
  let ?M = "perturbation_mask lib n d"
  from range sobol have unit: "\<forall>i j. 0 \<le> sobol i j \<and> sobol i j \<le> 1" by blast
  have kM: "k < length ?M" and kP: "k < length ?P"
    using k by (simp_all add: perturbation_mask_length perturbations_length)
  from candidates_nth_entries [OF kM kP] v x
  consider "v \<in> set x_center" | "v \<in> set (?P ! k)" by blast
  then show "0 \<le> v \<and> v \<le> 1"
  proof cases
    case 1
    with c show ?thesis by blast
  next
    case 2
    have "?P ! k \<in> set ?P" using kP by simp
    from perturbations_unit [OF lb ub unit this 2] show ?thesis .
  qed
qed

lemma thompson_sample_total:
  assumes d: "2 \<le> d" and n: "0 < n"
    and len: "length x_center = d" "length tr_lb = d" "length tr_ub = d"
    and sobol_ok: "sobol_draw lib d n \<noteq> None"
    and posterior_ok: "\<forall>m X_cand. posterior_draw lib m X_cand \<noteq> None"
  shows "\<exists>x. thompson_sample lib model d n x_center tr_lb tr_ub = Inr x \<and> length x = d"
proof -
  from sobol_ok obtain sobol where sobol: "sobol_draw lib d n = Some sobol" by blast
  let ?P = "perturbations sobol n d tr_lb tr_ub"
  let ?M = "perturbation_mask lib n d"
  let ?X = "candidates x_center ?M ?P"
  from posterior_ok obtain sample where
    sample: "posterior_draw lib (model\<lparr>training := False\<rparr>) ?X = Some sample"
    by blast
  from n have "map sample [0..<n] \<noteq> []" by simp
  from tensor_argmax_total [OF this] obtain k where
    k: "tensor_argmax (map sample [0..<n]) = Inr k" "k < n"
    by auto
  have kM: "k < length ?M" and kP: "k < length ?P"
    using k by (simp_all add: perturbation_mask_length perturbations_length)
  have "length (?M ! k) = map length ?M ! k" using kM by simp
  then have lM: "length (?M ! k) = d"
    using k by (simp add: perturbation_mask_lengths)
  have "?P ! k \<in> set ?P" using kP by simp
  then have lP: "length (?P ! k) = d"
    using len by (simp add: perturbations_row_length)
  have "length (?X ! k) = d"
    by (simp add: candidates_nth [OF kM kP] lM lP len)
  moreover have "thompson_sample lib model d n x_center tr_lb tr_ub = Inr (?X ! k)"
    using d k sobol sample by (simp add: thompson_sample_def Let_def)
  ultimately show ?thesis by blast
qed

subsection \<open>The body of \<open>generate_batch\<close>\<close>

lemma generate_batch_Inr:
  assumes "generate_batch lib state model X Y n_candidates acqf = Inr x"
  shows "acqf = ''ts'' \<and> concat X \<noteq> [] \<and>
     (\<forall>v \<in> set (concat X). fl_le (Finite 0) v \<and> fl_le v (Finite 1)) \<and> list_all isfinite Y \<and>
     (\<exists>i weights tr_lb tr_ub n. tensor_argmax (map the_real Y) = Inr i \<and> i < length X \<and>
        tr_weights model = Inr weights \<and>
        trust_region state (map the_real (X ! i)) weights = Inr (tr_lb, tr_ub) \<and>
        thompson_sample lib model (ncols X) n (map the_real (X ! i)) tr_lb tr_ub = Inr x)"
proof -
  from assms obtain lo hi where m: "tensor_min (concat X) = Inr lo" "tensor_max (concat X) = Inr hi"
    by (auto simp: generate_batch_def split: if_splits sum.splits)
  then have ne: "concat X \<noteq> []" by (auto simp only: tensor_min.simps sum.distinct)
  from assms m have chk: "fl_le (Finite 0) lo \<and> fl_le hi (Finite 1)" and fin: "list_all isfinite Y"
    by (auto simp: generate_batch_def split: if_splits)
  from assms m chk fin
  have "acqf = ''ts'' \<and>
     (\<exists>i weights tr_lb tr_ub n. tensor_argmax (map the_real Y) = Inr i \<and> i < length X \<and>
        tr_weights model = Inr weights \<and>
        trust_region state (map the_real (X ! i)) weights = Inr (tr_lb, tr_ub) \<and>
        thompson_sample lib model (ncols X) n (map the_real (X ! i)) tr_lb tr_ub = Inr x)"
    by (auto simp: generate_batch_def Let_def split: if_splits sum.splits prod.splits)
  with ne fin chk range_check [OF m] show ?thesis by simp
qed

lemma generate_batch_checked:
  assumes "str_contains ''ts'' acqf" "concat X \<noteq> []"
    "\<forall>v \<in> set (concat X). fl_le (Finite 0) v \<and> fl_le v (Finite 1)" "list_all isfinite Y"
    "tensor_argmax (map the_real Y) = Inr i" "i < length X" "tr_weights model = Inr weights"
    "trust_region state (map the_real (X ! i)) weights = Inr (tr_lb, tr_ub)"
  shows "generate_batch lib state model X Y n_candidates acqf =
     (if acqf = ''ts''
      then thompson_sample lib model (ncols X)
             (case n_candidates of None \<Rightarrow> min 5000 (max 2000 (200 * ncols X)) | Some k \<Rightarrow> k)
             (map the_real (X ! i)) tr_lb tr_ub
      else Inl UnboundLocalError)"
proof -
  from tensor_min_max_total [OF assms(2)] obtain lo hi where
    m: "tensor_min (concat X) = Inr lo" "tensor_max (concat X) = Inr hi" by blast
  from range_check [OF m] assms(3) have "fl_le (Finite 0) lo \<and> fl_le hi (Finite 1)" by simp
  with m assms(1,4-8) show ?thesis
    by (simp add: generate_batch_def Let_def)
qed

lemma generate_batch_AssertionError:
  "generate_batch lib state model X Y n_candidates acqf = Inl AssertionError \<longleftrightarrow>
     \<not> str_contains ''ts'' acqf \<or>
     (concat X \<noteq> [] \<and>
      \<not> ((\<forall>v \<in> set (concat X). fl_le (Finite 0) v \<and> fl_le v (Finite 1)) \<and>
          list_all isfinite Y))"
proof (cases "str_contains ''ts'' acqf")
  case False
  then show ?thesis by (simp add: generate_batch_def)
next
  case acqf: True
  show ?thesis
  proof (cases "concat X = []")
    case True
    then have "tensor_min (concat X) = Inl LibraryError"
      by (simp only: tensor_min.simps)
    then have "generate_batch lib state model X Y n_candidates acqf = Inl LibraryError"
      using acqf by (simp add: generate_batch_def)
    then show ?thesis using acqf True by simp
  next
    case False
    from tensor_min_max_total [OF this] obtain lo hi where
      mm: "tensor_min (concat X) = Inr lo" "tensor_max (concat X) = Inr hi" by blast
    note rc = range_check [OF mm]
    show ?thesis
    proof (cases "(\<forall>v \<in> set (concat X). fl_le (Finite 0) v \<and> fl_le v (Finite 1)) \<and>
                  list_all isfinite Y")
      case False
      with rc have "\<not> (fl_le (Finite 0) lo \<and> fl_le hi (Finite 1) \<and> list_all isfinite Y)"
        by blast
      then have "generate_batch lib state model X Y n_candidates acqf = Inl AssertionError"
        using acqf mm by (simp add: generate_batch_def)
      with False \<open>concat X \<noteq> []\<close> show ?thesis by blast
    next
      case True
      with rc have ok: "fl_le (Finite 0) lo" "fl_le hi (Finite 1)" "list_all isfinite Y"
        by blast+
      have "generate_batch lib state model X Y n_candidates acqf \<noteq> Inl AssertionError"
        using acqf mm ok
        by (auto simp: generate_batch_def Let_def tensor_argmax_Inl
            split: sum.splits prod.splits
            dest: tr_weights_Inl trust_region_Inl thompson_sample_Inl)
      then show ?thesis using True acqf by blast
    qed
  qed
qed

lemma unit_rows_checks:
  assumes X: "X \<noteq> []"
    and rows: "\<forall>row \<in> set X. length row = d \<and>
                 (\<forall>v \<in> set row. fl_le (Finite 0) v \<and> fl_le v (Finite 1))"
    and d: "0 < d"
  shows "concat X \<noteq> [] \<and> (\<forall>v \<in> set (concat X). fl_le (Finite 0) v \<and> fl_le v (Finite 1))"
proof -
  from X obtain r where r: "r \<in> set X" by (cases X) auto
  with rows d have "r \<noteq> []" by auto
  with r have ne: "concat X \<noteq> []" by auto
  moreover have "\<forall>v \<in> set (concat X). fl_le (Finite 0) v \<and> fl_le v (Finite 1)"
    using rows by auto
  ultimately show ?thesis by simp
qed

lemma ncols_rows: "X \<noteq> [] \<Longrightarrow> \<forall>row \<in> set X. length row = d \<Longrightarrow> ncols X = d"
  by (cases X) (simp_all add: ncols_def)

lemma generate_batch_reaches_branch:
  assumes X: "X \<noteq> []"
    and rows: "\<forall>row \<in> set X. length row = d \<and>
                 (\<forall>v \<in> set row. fl_le (Finite 0) v \<and> fl_le v (Finite 1))"
    and d: "2 \<le> d" and Y: "Y \<noteq> []" "length Y \<le> length X"
    and ls: "length (lengthscale model) = d"
    and fin: "list_all isfinite Y"
    and acqf: "str_contains ''ts'' acqf"
  shows "\<exists>i tr_lb tr_ub. i < length X \<and> length tr_lb = d \<and> length tr_ub = d \<and>
     generate_batch lib state model X Y n_candidates acqf =
       (if acqf = ''ts''
        then thompson_sample lib model d
               (case n_candidates of None \<Rightarrow> min 5000 (max 2000 (200 * d)) | Some k \<Rightarrow> k)
               (map the_real (X ! i)) tr_lb tr_ub
        else Inl UnboundLocalError)"
proof -
  from d have "0 < d" by simp
  from unit_rows_checks [OF X rows this]
  have chk: "concat X \<noteq> []"
    "\<forall>v \<in> set (concat X). fl_le (Finite 0) v \<and> fl_le v (Finite 1)" by simp_all
  from Y(1) have "map the_real Y \<noteq> []" by simp
  from tensor_argmax_total [OF this] Y(2)
  obtain i where i: "tensor_argmax (map the_real Y) = Inr i" "i < length X"
    by auto
  from tr_weights_total [of model] d ls obtain ws where ws: "tr_weights model = Inr ws" "length ws = d"
    by auto
  from i(2) have "X ! i \<in> set X" by (rule nth_mem)
  with rows have lx: "length (map the_real (X ! i)) = d" by simp
  from trust_region_same_length [of "map the_real (X ! i)" ws state] lx ws obtain tr_lb tr_ub where
    tr: "trust_region state (map the_real (X ! i)) ws = Inr (tr_lb, tr_ub)"
      "length tr_lb = d" "length tr_ub = d"
    by auto
  have nc: "ncols X = d" using ncols_rows [OF X] rows by blast
  have "generate_batch lib state model X Y n_candidates acqf =
       (if acqf = ''ts''
        then thompson_sample lib model d
               (case n_candidates of None \<Rightarrow> min 5000 (max 2000 (200 * d)) | Some k \<Rightarrow> k)
               (map the_real (X ! i)) tr_lb tr_ub
        else Inl UnboundLocalError)"
    using generate_batch_checked [OF acqf chk fin i ws(1) tr(1), of lib n_candidates]
    by (simp only: nc)
  with i(2) tr(2,3) show ?thesis by blast
qed

lemma generate_batch_partial_unit:
  assumes sobol: "\<forall>d n sobol. sobol_draw lib d n = Some sobol \<longrightarrow>
                    (\<forall>i j. 0 \<le> sobol i j \<and> sobol i j \<le> 1)"
    and res: "generate_batch lib state model X Y n_candidates acqf = Inr x"
  shows "\<forall>v \<in> set x. 0 \<le> v \<and> v \<le> 1"
proof -
  from generate_batch_Inr [OF res] obtain i' ws lb ub n' where
    mm: "\<forall>v \<in> set (concat X). fl_le (Finite 0) v \<and> fl_le v (Finite 1)" and
    i': "i' < length X" and tr: "trust_region state (map the_real (X ! i')) ws = Inr (lb, ub)"
    and ts: "thompson_sample lib model (ncols X) n' (map the_real (X ! i')) lb ub = Inr x"
    by blast
  from i' have "X ! i' \<in> set X" by (rule nth_mem)
  then have "set (X ! i') \<subseteq> set (concat X)" by auto
  with mm have "\<forall>v \<in> set (X ! i'). fl_le (Finite 0) v \<and> fl_le v (Finite 1)" by blast
  from unit_the_real [OF this]
  have c: "\<forall>v \<in> set (map the_real (X ! i')). 0 \<le> v \<and> v \<le> 1" .
  from trust_region_unit [OF tr] have lb: "\<forall>v \<in> set lb. 0 \<le> v \<and> v \<le> 1"
    and ub: "\<forall>v \<in> set ub. 0 \<le> v \<and> v \<le> 1" by simp_all
  from thompson_sample_unit [OF ts c lb ub sobol] show ?thesis .
qed

lemma generate_batch_total_unit:
  assumes sobol: "\<forall>d n sobol. sobol_draw lib d n = Some sobol \<longrightarrow>
                    (\<forall>i j. 0 \<le> sobol i j \<and> sobol i j \<le> 1)"
    and sobol_ok: "\<forall>n. sobol_draw lib d n \<noteq> None"
    and posterior_ok: "\<forall>m X_cand. posterior_draw lib m X_cand \<noteq> None"
    and X: "X \<noteq> []"
    and rows: "\<forall>row \<in> set X. length row = d \<and>
                 (\<forall>v \<in> set row. fl_le (Finite 0) v \<and> fl_le v (Finite 1))"
    and d: "2 \<le> d" and Y: "Y \<noteq> []" "length Y \<le> length X"
    and ls: "length (lengthscale model) = d"
    and fin: "list_all isfinite Y"
    and n: "n_candidates \<noteq> Some 0"
  shows "\<exists>X_next. generate_batch lib state model X Y n_candidates ''ts'' = Inr X_next \<and>
           length X_next = d \<and> (\<forall>v \<in> set X_next. 0 \<le> v \<and> v \<le> 1)"
proof -
  let ?n = "case n_candidates of None \<Rightarrow> min 5000 (max 2000 (200 * d)) | Some k \<Rightarrow> k"
  have acqf: "str_contains ''ts'' ''ts''" by simp
  from generate_batch_reaches_branch [OF X rows d Y ls fin acqf, of lib state n_candidates]
  obtain i tr_lb tr_ub where i: "i < length X" and len: "length tr_lb = d" "length tr_ub = d"
    and gb: "generate_batch lib state model X Y n_candidates ''ts'' =
               thompson_sample lib model d ?n (map the_real (X ! i)) tr_lb tr_ub"
    by auto
  from i have "X ! i \<in> set X" by (rule nth_mem)
  with rows have lx: "length (map the_real (X ! i)) = d" by simp
  from n have npos: "0 < ?n" by (cases n_candidates) auto
  from sobol_ok have "sobol_draw lib d ?n \<noteq> None" by blast
  from thompson_sample_total [OF d npos lx len this posterior_ok, of model]
  obtain x where x: "thompson_sample lib model d ?n (map the_real (X ! i)) tr_lb tr_ub = Inr x"
    "length x = d"
    by blast
  with gb have res: "generate_batch lib state model X Y n_candidates ''ts'' = Inr x" by simp
  from generate_batch_partial_unit [OF sobol res] res x(2) show ?thesis by blast
qed

text \<open>The mode flag of the model, the one thing a call changes, has no influence on the
  result: \<^verbatim>\<open>generate_batch\<close> switches the model to evaluation mode itself.\<close>

lemma tr_weights_mode_independent:
  "tr_weights (model\<lparr>training := b\<rparr>) = tr_weights model"
  by (simp add: tr_weights_def)

lemma thompson_sample_mode_independent:
  "thompson_sample lib (model\<lparr>training := b\<rparr>) d n x_center tr_lb tr_ub =
     thompson_sample lib model d n x_center tr_lb tr_ub"
proof -
  have "model\<lparr>training := b, training := False\<rparr> = model\<lparr>training := False\<rparr>"
    by simp
  then show ?thesis
    unfolding thompson_sample_def by (simp only:)
qed

lemma generate_batch_mode_independent:
  "generate_batch lib state (model\<lparr>training := b\<rparr>) X Y n_candidates acqf =
     generate_batch lib state model X Y n_candidates acqf"
  unfolding generate_batch_def tr_weights_mode_independent thompson_sample_mode_independent
  by (rule refl)

subsection \<open>The sample run\<close>

lemma upt_0_2: "[0..<2] = [0, 1]"
  by (simp add: upt_rec)

lemma sample_checks:
  "concat X_2 \<noteq> []"
  "\<forall>v \<in> set (concat X_2). fl_le (Finite 0) v \<and> fl_le v (Finite 1)"
  "list_all isfinite Y_2"
  "tensor_argmax (map the_real Y_2) = Inr 1" "1 < length X_2"
  "map the_real (X_2 ! 1) = [1 / 4, 3 / 4]" "ncols X_2 = 2"
  by (simp_all add: X_2_def Y_2_def ncols_def)

lemma sample_shapes:
  "X_2 \<noteq> []"
  "\<forall>row \<in> set X_2. length row = 2 \<and>
     (\<forall>v \<in> set row. fl_le (Finite 0) v \<and> fl_le v (Finite 1))"
  "(2::nat) \<le> 2" "Y_2 \<noteq> []" "length Y_2 \<le> length X_2"
  "length (lengthscale (ExactGPModel_init defaults_1 X_2 Y_2)) = 2"
  "list_all isfinite Y_2"
  by (simp_all add: X_2_def Y_2_def ExactGPModel_init_def ncols_def)

lemma sample_weights: "tr_weights (ExactGPModel_init defaults_1 X_2 Y_2) = Inr [1, 1]"
  by (simp add: tr_weights_def ExactGPModel_init_def defaults_1_def X_2_def ncols_def Let_def
      eval_nat_numeral)

lemma sample_trust_region:
  "trust_region state_2 (map the_real (X_2 ! 1)) [1, 1] = Inr ([0, 7 / 20], [13 / 20, 1])"
  unfolding sample_checks(6)
  by (simp add: trust_region_def broadcast2_def clamp_def state_2_def)

lemma sample_mask: "perturbation_mask draws_2 2 2 = [[True, True], [True, True]]"
  by (simp add: perturbation_mask_def draws_2_def Let_def upt_0_2)

lemma sample_perturbations:
  "perturbations (\<lambda>i j. if j = 0 then 1 / 2 else 1 / 4) 2 2 [0, 7 / 20] [13 / 20, 1] =
     [[13 / 40, 41 / 80], [13 / 40, 41 / 80]]"
  by (simp add: perturbations_def upt_0_2)

lemma sample_draws:
  "sobol_draw draws_2 d n = Some (\<lambda>i j. if j = 0 then 1 / 2 else 1 / 4)"
  "posterior_draw draws_2 m X_cand = Some (\<lambda>i. real i)"
  "\<forall>d n sobol. sobol_draw draws_2 d n = Some sobol \<longrightarrow>
     (\<forall>i j. 0 \<le> sobol i j \<and> sobol i j \<le> 1)"
  "\<forall>n. sobol_draw draws_2 d n \<noteq> None"
  "\<forall>m X_cand. posterior_draw draws_2 m X_cand \<noteq> None"
  by (auto simp: draws_2_def)

lemma sample_thompson:
  "thompson_sample draws_2 m (ncols X_2) 2 (map the_real (X_2 ! 1)) [0, 7 / 20] [13 / 20, 1] =
     Inr [13 / 40, 41 / 80]"
  unfolding sample_checks(6,7)
  by (simp add: thompson_sample_def sample_draws(1,2) sample_mask sample_perturbations
      candidates_def Let_def upt_0_2)

lemma sample_generate_batch:
  "generate_batch draws_2 state_2 (ExactGPModel_init defaults_1 X_2 Y_2) X_2 Y_2 (Some 2) ''ts'' =
     Inr [13 / 40, 41 / 80]"
proof -
  have "str_contains ''ts'' ''ts''" by simp
  from generate_batch_checked
    [OF this sample_checks(1-5) sample_weights sample_trust_region, of draws_2 "Some 2"]
  show ?thesis by (simp only: sample_thompson simp_thms if_True option.case)
qed

subsection \<open>The returned point lies in the unit cube\<close>

text \<open>
  Claim C9. The Sobol draws lie in the unit interval, as the library guarantees, and the
  lengthscales of the model are positive, as GPyTorch constrains them. Then every
  coordinate of a point that \<^verbatim>\<open>generate_batch\<close> returns lies in \<open>[0, 1]\<close>: a
  point is returned only when the assertion on \<^verbatim>\<open>X\<close> has passed, the bounds of the
  trust region are clamped to \<open>[0, 1]\<close>, and a coordinate of a candidate is either a
  perturbation between the two bounds or a coordinate of the centre. And a point is
  returned: for \<^verbatim>\<open>acqf = "ts"\<close>, at least one candidate, observations \<^verbatim>\<open>X\<close> of
  \<open>d \<ge> 2\<close> columns in the unit cube with finite outputs \<^verbatim>\<open>Y\<close>, a model of
  \<open>d\<close> lengthscales, and libraries that raise neither in the Sobol engine nor in the
  sampling of the posterior, the function returns a point of \<open>d\<close> coordinates in the
  unit cube.
\<close>

theorem generate_batch_unit_cube:
  assumes sobol: "\<forall>d n sobol. sobol_draw lib d n = Some sobol \<longrightarrow>
                    (\<forall>i j. 0 \<le> sobol i j \<and> sobol i j \<le> 1)"
    and pos: "\<forall>w \<in> set (lengthscale model). 0 < w"
  shows "(\<forall>X_next. generate_batch lib state model X Y n_candidates acqf = Inr X_next \<longrightarrow>
            (\<forall>v \<in> set X_next. 0 \<le> v \<and> v \<le> 1)) \<and>
         (X \<noteq> [] \<and>
          (\<forall>row \<in> set X. length row = d \<and>
             (\<forall>v \<in> set row. fl_le (Finite 0) v \<and> fl_le v (Finite 1))) \<and>
          2 \<le> d \<and> Y \<noteq> [] \<and> length Y \<le> length X \<and> list_all isfinite Y \<and>
          length (lengthscale model) = d \<and>
          n_candidates \<noteq> Some 0 \<and>
          (\<forall>n. sobol_draw lib d n \<noteq> None) \<and>
          (\<forall>m X_cand. posterior_draw lib m X_cand \<noteq> None) \<longrightarrow>
            (\<exists>X_next. generate_batch lib state model X Y n_candidates ''ts'' = Inr X_next \<and>
               length X_next = d \<and> (\<forall>v \<in> set X_next. 0 \<le> v \<and> v \<le> 1)))"
proof (intro conjI allI impI)
  fix X_next
  assume "generate_batch lib state model X Y n_candidates acqf = Inr X_next"
  from generate_batch_partial_unit [OF sobol this]
  show "\<forall>v \<in> set X_next. 0 \<le> v \<and> v \<le> 1" .
next
  assume wf: "X \<noteq> [] \<and>
          (\<forall>row \<in> set X. length row = d \<and>
             (\<forall>v \<in> set row. fl_le (Finite 0) v \<and> fl_le v (Finite 1))) \<and>
          2 \<le> d \<and> Y \<noteq> [] \<and> length Y \<le> length X \<and> list_all isfinite Y \<and>
          length (lengthscale model) = d \<and>
          n_candidates \<noteq> Some 0 \<and>
          (\<forall>n. sobol_draw lib d n \<noteq> None) \<and>
          (\<forall>m X_cand. posterior_draw lib m X_cand \<noteq> None)"
  then show "\<exists>X_next. generate_batch lib state model X Y n_candidates ''ts'' = Inr X_next \<and>
               length X_next = d \<and> (\<forall>v \<in> set X_next. 0 \<le> v \<and> v \<le> 1)"
    by (intro generate_batch_total_unit [OF sobol]) simp_all
qed

text \<open>The theorem of C9 on the sample run: the centre is the second observation
  \<open>(1 / 4, 3 / 4)\<close>, the trust region is \<open>[0, 13 / 20] \<times> [7 / 20, 1]\<close>, and the
  returned point is \<open>(13 / 40, 41 / 80)\<close>.\<close>

theorem generate_batch_unit_cube_witness:
  "generate_batch draws_2 state_2 (ExactGPModel_init defaults_1 X_2 Y_2) X_2 Y_2 (Some 2) ''ts'' =
     Inr [13 / 40, 41 / 80] \<and>
   list_all (\<lambda>v. 0 \<le> v \<and> v \<le> 1) [13 / 40, 41 / 80 :: real]"
proof -
  note s = sample_draws(3)
  have p: "\<forall>w \<in> set (lengthscale (ExactGPModel_init defaults_1 X_2 Y_2)). 0 < w"
    by (simp add: ExactGPModel_init_def defaults_1_def)
  have n: "Some 2 \<noteq> Some (0::nat)" by simp
  from generate_batch_unit_cube [OF s p, of state_2 X_2 Y_2 "Some 2" "''ts''" 2]
    sample_shapes n sample_draws(4,5) sample_generate_batch
  show ?thesis by (simp add: list_all_iff)
qed

subsection \<open>The assertion on the acquisition function\<close>

lemma str_contains_ts: "str_contains ''ts'' a \<longleftrightarrow> a \<in> {'''', ''t'', ''s'', ''ts''}"
proof (cases a)
  case Nil
  then show ?thesis by simp
next
  case (Cons c cs)
  note a = this
  show ?thesis
  proof (cases cs)
    case Nil
    with a show ?thesis by auto
  next
    case (Cons d ds)
    with a show ?thesis by (cases ds) auto
  qed
qed

text \<open>
  Claim C10. \<^verbatim>\<open>acqf in ("ts")\<close> is a substring test: it holds of exactly the four
  strings \<^verbatim>\<open>""\<close>, \<^verbatim>\<open>"t"\<close>, \<^verbatim>\<open>"s"\<close> and \<^verbatim>\<open>"ts"\<close>. For each of the first
  three, which differ from \<^verbatim>\<open>"ts"\<close>, and for inputs that pass the second assertion
  and the computation of the trust region (observations of \<open>d \<ge> 2\<close> columns in the unit
  cube, with finite outputs, and a model of \<open>d\<close> lengthscales), the assertion passes,
  the Thompson-sampling branch is skipped and the call ends in the
  \<^verbatim>\<open>UnboundLocalError\<close> of \<^verbatim>\<open>return X_next\<close>.
\<close>

theorem generate_batch_acqf_substring:
  assumes acqf: "acqf \<in> {'''', ''t'', ''s''}"
    and X: "X \<noteq> []"
    and rows: "\<forall>row \<in> set X. length row = d \<and>
                 (\<forall>v \<in> set row. fl_le (Finite 0) v \<and> fl_le v (Finite 1))"
    and d: "2 \<le> d" and Y: "Y \<noteq> []" "length Y \<le> length X"
    and ls: "length (lengthscale model) = d"
    and fin: "list_all isfinite Y"
  shows "(\<forall>a. str_contains ''ts'' a \<longleftrightarrow> a \<in> {'''', ''t'', ''s'', ''ts''}) \<and>
         acqf \<noteq> ''ts'' \<and>
         generate_batch lib state model X Y n_candidates acqf = Inl UnboundLocalError"
proof -
  from acqf have sub: "str_contains ''ts'' acqf" and ne: "acqf \<noteq> ''ts''"
    by (auto simp: str_contains_ts)
  from generate_batch_reaches_branch [OF X rows d Y ls fin sub, of lib state n_candidates] ne
  have "generate_batch lib state model X Y n_candidates acqf = Inl UnboundLocalError"
    by auto
  with ne str_contains_ts show ?thesis by blast
qed

text \<open>The theorem of C10 on the sample observations, for each of the three strings.\<close>

theorem generate_batch_acqf_substring_witness:
  "generate_batch draws_2 state_2 (ExactGPModel_init defaults_1 X_2 Y_2) X_2 Y_2 None ''t'' =
     Inl UnboundLocalError \<and>
   generate_batch draws_2 state_2 (ExactGPModel_init defaults_1 X_2 Y_2) X_2 Y_2 None ''s'' =
     Inl UnboundLocalError \<and>
   generate_batch draws_2 state_2 (ExactGPModel_init defaults_1 X_2 Y_2) X_2 Y_2 None '''' =
     Inl UnboundLocalError"
proof -
  have "''t'' \<in> {'''', ''t'', ''s''}" "''s'' \<in> {'''', ''t'', ''s''}"
    "'''' \<in> {'''', ''t'', ''s''}"
    by simp_all
  note th = this [THEN generate_batch_acqf_substring [OF _ sample_shapes]]
  from th [of draws_2 state_2 None] show ?thesis by blast
qed

section \<open>Checks, exceptions and the driver\<close>

subsection \<open>Which exceptions the functions raise\<close>

lemma post_init_Inl: "post_init s = Inl e \<Longrightarrow> e = ZeroDivisionError"
  by (auto simp: post_init_def split: if_splits)

lemma TurboState_new_Inr:
  "TurboState_new d b =
     Inr \<lparr>dim_st = d, batch_size = 1, length_st = 8 / 10, length_min = (1 / 2) ^ 7,
       length_max = 16 / 10, failure_counter = 0, failure_tolerance = max 4 d,
       success_counter = 0, success_tolerance = 3, best_value = b,
       restart_triggered = False\<rparr>"
  by (simp add: TurboState_new_def post_init_def max_def)

lemma update_state_Inl: "update_state thr s Y = Inl e \<Longrightarrow> e = ValueError \<and> Y = []"
  by (cases Y) (auto simp: update_state_def)

lemma next_query_eq:
  "next_query_via_TurBO gd lib train_x train_y turbo_state =
     generate_batch lib turbo_state (ExactGPModel_init gd train_x train_y) train_x train_y
       None ''ts''"
  by (simp add: next_query_via_TurBO_def ExactGPModel_init_def Let_def)

lemma second_assertion_fails:
  "\<not> ((\<forall>v \<in> set xs. fl_le (Finite 0) v \<and> fl_le v (Finite 1)) \<and> list_all isfinite Y) \<longleftrightarrow>
     (\<exists>v \<in> set xs. v = NaN \<or> fl_less v (Finite 0) \<or> fl_less (Finite 1) v) \<or>
     (\<exists>y \<in> set Y. \<not> isfinite y)"
  using outside_unit by (auto simp: list_all_iff)

text \<open>
  Claim C3, as the code has it. The checks written in the notebook are the two assertions
  at the head of \<^verbatim>\<open>generate_batch\<close>: the call raises \<^verbatim>\<open>AssertionError\<close>
  exactly when \<^verbatim>\<open>acqf\<close> is no substring of \<^verbatim>\<open>"ts"\<close>, or \<^verbatim>\<open>X\<close> has an
  element and either some element of \<^verbatim>\<open>X\<close> is NaN, below 0 or above 1, or some
  element of \<^verbatim>\<open>Y\<close> is not finite (an infinity or NaN).
  \<^verbatim>\<open>next_query_via_TurBO\<close> raises it under the second condition only, since it
  passes \<^verbatim>\<open>"ts"\<close>. \<^verbatim>\<open>update_state\<close> and the construction of a
  \<^verbatim>\<open>TurboState\<close> never raise it: they hold no check of their own, and what they
  raise comes from the built-in \<^verbatim>\<open>max\<close> and from float division.
\<close>

theorem only_checks_are_assertions:
  "(generate_batch lib state model X Y n_candidates acqf = Inl AssertionError \<longleftrightarrow>
      \<not> str_contains ''ts'' acqf \<or>
      (concat X \<noteq> [] \<and>
       ((\<exists>v \<in> set (concat X). v = NaN \<or> fl_less v (Finite 0) \<or> fl_less (Finite 1) v) \<or>
        (\<exists>y \<in> set Y. \<not> isfinite y)))) \<and>
   (next_query_via_TurBO gd lib train_x train_y turbo_state = Inl AssertionError \<longleftrightarrow>
      concat train_x \<noteq> [] \<and>
      ((\<exists>v \<in> set (concat train_x). v = NaN \<or> fl_less v (Finite 0) \<or> fl_less (Finite 1) v) \<or>
       (\<exists>y \<in> set train_y. \<not> isfinite y))) \<and>
   update_state thr s Y_next \<noteq> Inl AssertionError \<and>
   post_init s \<noteq> Inl AssertionError \<and>
   TurboState_new dm b \<noteq> Inl AssertionError"
proof -
  have "update_state thr s Y_next \<noteq> Inl AssertionError"
    using update_state_Inl [of thr s Y_next AssertionError] by auto
  moreover have "post_init s \<noteq> Inl AssertionError"
    using post_init_Inl [of s AssertionError] by auto
  moreover have "TurboState_new dm b \<noteq> Inl AssertionError"
    by (simp add: TurboState_new_Inr)
  moreover have "str_contains ''ts'' ''ts''" by simp
  ultimately show ?thesis
    unfolding next_query_eq generate_batch_AssertionError second_assertion_fails
    by simp
qed

text \<open>The theorem of C3 on the sample observations: with \<^verbatim>\<open>acqf = "ei"\<close> the first
  assertion fails; with an output of infinity, or a coordinate that is NaN, the second
  assertion fails; with \<^verbatim>\<open>acqf = "ts"\<close> and the sample observations neither
  fails.\<close>

theorem only_checks_are_assertions_witness:
  "generate_batch draws_2 state_2 (ExactGPModel_init defaults_1 X_2 Y_2) X_2 Y_2 None ''ei'' =
     Inl AssertionError \<and>
   generate_batch draws_2 state_2 (ExactGPModel_init defaults_1 X_2 Y_2) X_2 [Finite 0, PosInf]
     None ''ts'' = Inl AssertionError \<and>
   generate_batch draws_2 state_2 (ExactGPModel_init defaults_1 X_2 Y_2)
     [[Finite (1 / 2), NaN]] Y_2 None ''ts'' = Inl AssertionError \<and>
   generate_batch draws_2 state_2 (ExactGPModel_init defaults_1 X_2 Y_2) X_2 Y_2 (Some 2) ''ts''
     \<noteq> Inl AssertionError"
proof -
  have a: "\<not> str_contains ''ts'' ''ei''" "str_contains ''ts'' ''ts''" by simp_all
  have x: "concat X_2 \<noteq> []"
    "\<not> (\<exists>v \<in> set (concat X_2). v = NaN \<or> fl_less v (Finite 0) \<or> fl_less (Finite 1) v)"
    "\<not> (\<exists>y \<in> set Y_2. \<not> isfinite y)"
    by (simp_all add: X_2_def Y_2_def)
  have y: "\<exists>y \<in> set [Finite 0, PosInf]. \<not> isfinite y" by simp
  have n: "concat [[Finite (1 / 2), NaN]] \<noteq> []"
    "\<exists>v \<in> set (concat [[Finite (1 / 2), NaN]]).
       v = NaN \<or> fl_less v (Finite 0) \<or> fl_less (Finite 1) v"
    by simp_all
  from only_checks_are_assertions
        [of draws_2 state_2 "ExactGPModel_init defaults_1 X_2 Y_2" X_2 Y_2 None "''ei''"] a(1)
  have 1: "generate_batch draws_2 state_2 (ExactGPModel_init defaults_1 X_2 Y_2) X_2 Y_2 None
             ''ei'' = Inl AssertionError"
    by blast
  from only_checks_are_assertions
        [of draws_2 state_2 "ExactGPModel_init defaults_1 X_2 Y_2" X_2 "[Finite 0, PosInf]"
          None "''ts''"] x(1) y
  have 2: "generate_batch draws_2 state_2 (ExactGPModel_init defaults_1 X_2 Y_2) X_2
             [Finite 0, PosInf] None ''ts'' = Inl AssertionError"
    by blast
  from only_checks_are_assertions
        [of draws_2 state_2 "ExactGPModel_init defaults_1 X_2 Y_2" "[[Finite (1 / 2), NaN]]"
          Y_2 None "''ts''"] n
  have 3: "generate_batch draws_2 state_2 (ExactGPModel_init defaults_1 X_2 Y_2)
             [[Finite (1 / 2), NaN]] Y_2 None ''ts'' = Inl AssertionError"
    by blast
  from only_checks_are_assertions
        [of draws_2 state_2 "ExactGPModel_init defaults_1 X_2 Y_2" X_2 Y_2 "Some 2" "''ts''"]
      a(2) x
  have 4: "generate_batch draws_2 state_2 (ExactGPModel_init defaults_1 X_2 Y_2) X_2 Y_2
             (Some 2) ''ts'' \<noteq> Inl AssertionError"
    by blast
  from 1 2 3 4 show ?thesis by blast
qed

text \<open>
  Claim C3 as it is worded fails: a check of the notebook's own raises. For one observed
  point \<open>(1 / 2, 2)\<close>, whose second coordinate is above 1, the second assertion of
  \<^verbatim>\<open>generate_batch\<close> fails and the call ends in \<^verbatim>\<open>AssertionError\<close>, before any
  library is asked for a candidate.
\<close>

theorem generate_batch_asserts_range:
  "generate_batch draws_2 state_2 (ExactGPModel_init defaults_1 X_2 Y_2)
     [[Finite (1 / 2), Finite 2]] [Finite 0] None ''ts'' = Inl AssertionError"
  by (simp add: generate_batch_def fl_min_def fl_max_def)

subsection \<open>The model that reaches \<open>generate_batch\<close>\<close>

text \<open>
  Claim C7. \<^verbatim>\<open>next_query_via_TurBO\<close> is \<^verbatim>\<open>generate_batch\<close> on the freshly
  constructed model: no step between the construction and the call touches a
  hyperparameter, so the constant mean, the lengthscales, the output scale and the noise
  are the initial values of the library, although \<^verbatim>\<open>training_iter\<close> is 2000. And for
  training inputs of \<open>d \<ge> 2\<close> columns in the unit cube with their finite outputs, and
  libraries that raise neither in the Sobol engine nor in the sampling of the posterior,
  the function returns one point, of \<open>d\<close> coordinates.
\<close>

theorem next_query_untrained:
  "next_query_via_TurBO gd lib train_x train_y turbo_state =
     generate_batch lib turbo_state (ExactGPModel_init gd train_x train_y) train_x train_y
       None ''ts'' \<and>
   mean_constant (ExactGPModel_init gd train_x train_y) = initial_constant gd \<and>
   lengthscale (ExactGPModel_init gd train_x train_y) =
     replicate (ncols train_x) (initial_lengthscale gd) \<and>
   outputscale (ExactGPModel_init gd train_x train_y) = initial_outputscale gd \<and>
   noise (ExactGPModel_init gd train_x train_y) = initial_noise gd \<and>
   (train_x \<noteq> [] \<and>
    (\<forall>row \<in> set train_x. length row = d \<and>
       (\<forall>v \<in> set row. fl_le (Finite 0) v \<and> fl_le v (Finite 1))) \<and>
    2 \<le> d \<and> train_y \<noteq> [] \<and> length train_y \<le> length train_x \<and>
    list_all isfinite train_y \<and>
    (\<forall>n. sobol_draw lib d n \<noteq> None) \<and>
    (\<forall>m X_cand. posterior_draw lib m X_cand \<noteq> None) \<longrightarrow>
      (\<exists>X_next. next_query_via_TurBO gd lib train_x train_y turbo_state = Inr X_next \<and>
         length X_next = d))"
proof -
  have "\<exists>X_next. next_query_via_TurBO gd lib train_x train_y turbo_state = Inr X_next \<and>
         length X_next = d"
    if wf: "train_x \<noteq> []"
      "\<forall>row \<in> set train_x. length row = d \<and>
         (\<forall>v \<in> set row. fl_le (Finite 0) v \<and> fl_le v (Finite 1))"
      "2 \<le> d" "train_y \<noteq> []" "length train_y \<le> length train_x"
      and fin: "list_all isfinite train_y"
      and sobol_ok: "\<forall>n. sobol_draw lib d n \<noteq> None"
      and posterior_ok: "\<forall>m X_cand. posterior_draw lib m X_cand \<noteq> None"
  proof -
    let ?m = "ExactGPModel_init gd train_x train_y"
    let ?n = "min 5000 (max 2000 (200 * d))"
    have ls: "length (lengthscale ?m) = d"
      using ncols_rows [OF wf(1)] wf(2) by (simp add: ExactGPModel_init_def)
    have acqf: "str_contains ''ts'' ''ts''" by simp
    from generate_batch_reaches_branch [OF wf ls fin acqf, of lib turbo_state None]
    obtain i tr_lb tr_ub where i: "i < length train_x"
      and len: "length tr_lb = d" "length tr_ub = d"
      and gb: "generate_batch lib turbo_state ?m train_x train_y None ''ts'' =
                 thompson_sample lib ?m d ?n (map the_real (train_x ! i)) tr_lb tr_ub"
      by auto
    from i have "train_x ! i \<in> set train_x" by (rule nth_mem)
    with wf(2) have lx: "length (map the_real (train_x ! i)) = d" by simp
    have npos: "0 < ?n" by simp
    from sobol_ok have "sobol_draw lib d ?n \<noteq> None" by blast
    from thompson_sample_total [OF wf(3) npos lx len this posterior_ok, of ?m] gb
    show ?thesis by (simp add: next_query_eq)
  qed
  then show ?thesis
    by (simp add: next_query_eq) (simp add: ExactGPModel_init_def)
qed

text \<open>The theorem of C7 on the sample observations: the model has the two initial
  lengthscales, and a point of two coordinates is returned.\<close>

theorem next_query_untrained_witness:
  "lengthscale (ExactGPModel_init defaults_1 X_2 Y_2) = [1, 1] \<and>
   (\<exists>X_next. next_query_via_TurBO defaults_1 draws_2 X_2 Y_2 state_2 = Inr X_next \<and>
      length X_next = 2)"
proof -
  have wf: "X_2 \<noteq> [] \<and>
    (\<forall>row \<in> set X_2. length row = 2 \<and>
       (\<forall>v \<in> set row. fl_le (Finite 0) v \<and> fl_le v (Finite 1))) \<and>
    (2::nat) \<le> 2 \<and> Y_2 \<noteq> [] \<and> length Y_2 \<le> length X_2 \<and> list_all isfinite Y_2 \<and>
    (\<forall>n. sobol_draw draws_2 2 n \<noteq> None) \<and>
    (\<forall>m X_cand. posterior_draw draws_2 m X_cand \<noteq> None)"
    using sample_shapes sample_draws(4,5) by blast
  have r: "replicate (ncols X_2) (initial_lengthscale defaults_1) = [1, 1]"
    by (simp add: sample_checks defaults_1_def eval_nat_numeral)
  from next_query_untrained [of defaults_1 draws_2 X_2 Y_2 state_2 2] wf
  have "lengthscale (ExactGPModel_init defaults_1 X_2 Y_2) =
          replicate (ncols X_2) (initial_lengthscale defaults_1) \<and>
        (\<exists>X_next. next_query_via_TurBO defaults_1 draws_2 X_2 Y_2 state_2 = Inr X_next \<and>
           length X_next = 2)"
    by blast
  then show ?thesis by (simp only: r)
qed

subsection \<open>The state of a run of the driver\<close>

lemma functions_arr_in_range:
  "i \<in> set functions_arr \<Longrightarrow> np_index dimensions (i - 1) = Inr (dimensions ! nat (i - 1))"
  by (auto simp: functions_arr_def dimensions_def np_index_def)

lemma driver_state_best:
  "driver_state i fd = Inr s \<Longrightarrow> tensor_max (initial_outputs fd) = Inr (best_value s)"
  by (auto simp: driver_state_def TurboState_new_Inr split: sum.splits)

text \<open>
  Claim C2 asks for the best value over all the loaded data. The driver builds the state
  before it concatenates the three sources, so \<^verbatim>\<open>best_value\<close> is the maximum of the
  first file alone (\<open>driver_state_best\<close>). For function 1 with the output 1 in the first
  file, 2 in the second and 3 among the new points, the state holds 1, while the
  maximum of the outputs the run then works on is 3.
\<close>

theorem driver_state_first_file_only:
  "driver_state 1 data_1 = Inr (state_2\<lparr>best_value := Finite 1\<rparr>) \<and>
   tensor_max (driver_train_y data_1) = Inr (Finite 3)"
  by (simp add: driver_state_def driver_train_y_def data_1_def TurboState_new_def post_init_def
      dimensions_def np_index_def state_2_def power_divide fl_max_def)

end
